theory Spec2Isabelle
  imports Main "HOL-Library.Char_ord" "HOL-Library.List_Lexorder"
begin

section \<open>The Apache httpd charm: errors, effects and stored state\<close>

text \<open>
  The charm (\<^verbatim>\<open>src/charm.py\<close>) drives an Apache installation through external
  commands. The model makes the three things a handler does besides returning explicit:
  \<^item> an exception is a value of \<open>error\<close>, returned as \<open>Inl\<close>;
  \<^item> every external effect (a spawned command, a file written, an event emitted or
    deferred, the unit status set) is appended to the \<open>trace\<close> of the world;
  \<^item> the stored state (\<^verbatim>\<open>self.state\<close>) is threaded through every call, and a raised
    exception keeps the mutations made before it.

  Names with a leading underscore in the source lose it here. Calls to \<^verbatim>\<open>logger.info\<close>
  are left out. A spawned program is assumed to exist, so that \<^verbatim>\<open>subprocess.call\<close>
  always yields an exit code, and \<^verbatim>\<open>Path.write_text\<close> is assumed to succeed.
\<close>

datatype error =
    ApacheModuleEnableException string
  | ApacheModuleDisableException string
  | ApacheSiteEnableException string
  | ApacheSiteDisableException string
  | SystemctlCommandException string
  | NotImplementedError string
  | ValueError string
  | CalledProcessError int
  | KeyError string
  | AttributeError string
  | DecodeError string

datatype effect =
    Exec "string list"
  | WriteText "string list" string
  | EmitApacheReady
  | SetStatusActive
  | DeferEvent

text \<open>
  \<open>Exec argv\<close> is one \<^verbatim>\<open>subprocess.call\<close> or \<^verbatim>\<open>check_call\<close>;
  \<open>WriteText segments text\<close> is \<^verbatim>\<open>write_text\<close> on the path made of the given segments
  joined by \<^verbatim>\<open>/\<close>.

  \<open>current_modules\<close> is \<^verbatim>\<open>self.state._current_modules\<close>, which \<^verbatim>\<open>on_install\<close> sets.
  \<open>ready\<close> is \<^verbatim>\<open>self.state.ready\<close>; nothing assigns it before the first
  \<^verbatim>\<open>_assess_readiness\<close>, and reading an attribute that was never stored raises
  \<^verbatim>\<open>AttributeError\<close>, hence the \<open>option\<close>.
\<close>

record world =
  current_modules :: "string set"
  ready :: "bool option"
  trace :: "effect list"

text \<open>
  The exit code of a spawned command is decided by the environment; it may depend on
  everything done so far, so a runner reads the trace and the argument vector.
\<close>

type_synonym runner = "effect list \<Rightarrow> string list \<Rightarrow> int"

type_synonym 'a outcome = "(error + 'a) \<times> world"

definition call :: "runner \<Rightarrow> string list \<Rightarrow> world \<Rightarrow> int \<times> world" where
  "call run argv w = (run (trace w) argv, w\<lparr>trace := trace w @ [Exec argv]\<rparr>)"

definition check_call :: "runner \<Rightarrow> string list \<Rightarrow> world \<Rightarrow> unit outcome" where
  "check_call run argv w =
     (case call run argv w of
        (rc, w') \<Rightarrow> (if rc \<noteq> 0 then Inl (CalledProcessError rc) else Inr (), w'))"

subsection \<open>Python's \<^verbatim>\<open>str\<close> on integers and \<^verbatim>\<open>str.split\<close>\<close>

definition digit_char :: "nat \<Rightarrow> char" where
  "digit_char d = ''0123456789'' ! d"

fun str_nat :: "nat \<Rightarrow> string" where
  "str_nat n = (if n < 10 then [digit_char n] else str_nat (n div 10) @ [digit_char (n mod 10)])"

declare str_nat.simps [simp del]

definition str_int :: "int \<Rightarrow> string" where
  "str_int i = (if i < 0 then CHR ''-'' # str_nat (nat (- i)) else str_nat (nat i))"

text \<open>
  \<^verbatim>\<open>str.split()\<close> without arguments cuts at runs of whitespace and yields no empty
  token. A Python string is a sequence of code points; a character of the model is a
  code point below 256, which covers every string the charm itself writes. Among these
  code points Python counts as whitespace the tab to the carriage return, the four
  separators \<^verbatim>\<open>0x1c\<close> to \<^verbatim>\<open>0x1f\<close>, the space, the next-line control \<^verbatim>\<open>0x85\<close> and the
  no-break space \<^verbatim>\<open>0xa0\<close>.
\<close>

definition is_space :: "char \<Rightarrow> bool" where
  "is_space c \<longleftrightarrow>
     c \<in> set [CHR 0x09, CHR 0x0A, CHR 0x0B, CHR 0x0C, CHR 0x0D,
              CHR 0x1C, CHR 0x1D, CHR 0x1E, CHR 0x1F, CHR 0x20, CHR 0x85, CHR 0xA0]"

fun split_from :: "string \<Rightarrow> string \<Rightarrow> string list" where
  "split_from tok [] = (if tok = [] then [] else [tok])"
| "split_from tok (c # cs) =
     (if is_space c then (if tok = [] then split_from [] cs else tok # split_from [] cs)
      else split_from (tok @ [c]) cs)"

definition split :: "string \<Rightarrow> string list" where
  "split s = split_from [] s"

section \<open>Service control\<close>

definition HTTPD_SERVICE_NAME :: string where
  "HTTPD_SERVICE_NAME = ''apache2''"

definition SYSTEMCTL_COMMANDS :: "string set" where
  "SYSTEMCTL_COMMANDS =
     {''start'', ''stop'', ''restart'', ''reload'', ''daemon-reload'', ''disable'', ''enable''}"

definition systemd_unit_command :: "runner \<Rightarrow> string \<Rightarrow> string \<Rightarrow> world \<Rightarrow> unit outcome" where
  "systemd_unit_command run command name w =
     (if command \<in> SYSTEMCTL_COMMANDS then
        (case call run [''systemctl'', command, name] w of
           (rc, w') \<Rightarrow>
             (if rc \<noteq> 0 then
                Inl (SystemctlCommandException
                      (''got unexpected return code '' @ str_int rc @ '' while executing '' @
                       command @ '' on unit '' @ name))
              else Inr (), w'))
      else
        (Inl (NotImplementedError
               (''usage of systemctl command '' @ [CHR 0x22] @ command @ [CHR 0x22] @
                '' is not supported by the charm.'')), w))"

definition is_systemd_unit_active :: "runner \<Rightarrow> string \<Rightarrow> world \<Rightarrow> bool \<times> world" where
  "is_systemd_unit_active run name w =
     (case call run [''systemctl'', ''is-active'', name] w of
        (rc, w') \<Rightarrow> (if rc \<noteq> 0 then False else True, w'))"

definition on_apache_ready :: "world \<Rightarrow> world" where
  "on_apache_ready w = w\<lparr>trace := trace w @ [SetStatusActive]\<rparr>"

definition assess_readiness :: "runner \<Rightarrow> world \<Rightarrow> unit outcome" where
  "assess_readiness run w =
     (case is_systemd_unit_active run HTTPD_SERVICE_NAME w of
        (active, w1) \<Rightarrow>
          (if active then
             (Inr (), on_apache_ready (w1\<lparr>ready := Some True, trace := trace w1 @ [EmitApacheReady]\<rparr>))
           else (Inr (), w1\<lparr>ready := Some False\<rparr>)))"

section \<open>Modules\<close>

datatype module_state = Found | NotFound | OffByAdmin | OffByMaintainer

text \<open>
  The constructor of the \<^verbatim>\<open>ModuleState\<close> enumeration, applied to an exit code of
  \<^verbatim>\<open>a2query\<close>: a value that is no member raises \<^verbatim>\<open>ValueError\<close>.
\<close>

definition ModuleState :: "int \<Rightarrow> error + module_state" where
  "ModuleState rc =
     (if rc = 0 then Inr Found
      else if rc = 1 then Inr NotFound
      else if rc = 32 then Inr OffByAdmin
      else if rc = 33 then Inr OffByMaintainer
      else Inl (ValueError (str_int rc @ '' is not a valid ModuleState'')))"

definition get_module_state :: "runner \<Rightarrow> string \<Rightarrow> world \<Rightarrow> module_state outcome" where
  "get_module_state run module_name w =
     (case call run [''a2query'', ''-m'', module_name] w of (rc, w') \<Rightarrow> (ModuleState rc, w'))"

definition disable_module :: "runner \<Rightarrow> string \<Rightarrow> world \<Rightarrow> unit outcome" where
  "disable_module run module_name w =
     (case get_module_state run module_name w of
        (Inl e, w1) \<Rightarrow> (Inl e, w1)
      | (Inr state, w1) \<Rightarrow>
          (if state = Found then
             (case check_call run [''a2dismod'', module_name] w1 of
                (Inl e, w2) \<Rightarrow>
                  (Inl (ApacheModuleDisableException
                         (''unable to disable apache2 module '' @ module_name @ ''.'')), w2)
              | (Inr u, w2) \<Rightarrow> (Inr (), w2))
           else if state \<in> {OffByAdmin, OffByMaintainer} then (Inr (), w1)
           else if state = NotFound then
             (Inl (ApacheModuleDisableException
                    (''module '' @ module_name @ '' was not found.'')), w1)
           else
             (Inl (ApacheModuleDisableException
                    (''unexpected module '' @ module_name @ '' state.'')), w1)))"

definition enable_module :: "runner \<Rightarrow> string \<Rightarrow> world \<Rightarrow> unit outcome" where
  "enable_module run module_name w =
     (case check_call run [''a2enmod'', module_name] w of
        (Inl e, w1) \<Rightarrow>
          (Inl (ApacheModuleEnableException
                 (''unable to enable apache2 module '' @ module_name @ ''.'')), w1)
      | (Inr u, w1) \<Rightarrow> (Inr (), w1))"

section \<open>Reconciling the module set\<close>

text \<open>
  The two \<^verbatim>\<open>for\<close> loops of \<^verbatim>\<open>on_config_changed\<close>. \<^verbatim>\<open>set.remove\<close> raises
  \<^verbatim>\<open>KeyError\<close> on an absent element; \<^verbatim>\<open>set.add\<close> never raises.
\<close>

fun disable_loop :: "runner \<Rightarrow> string list \<Rightarrow> world \<Rightarrow> unit outcome" where
  "disable_loop run [] w = (Inr (), w)"
| "disable_loop run (m # ms) w =
     (case disable_module run m w of
        (Inl e, w1) \<Rightarrow> (Inl e, w1)
      | (Inr u, w1) \<Rightarrow>
          (if m \<in> current_modules w1 then
             disable_loop run ms (w1\<lparr>current_modules := current_modules w1 - {m}\<rparr>)
           else (Inl (KeyError m), w1)))"

fun enable_loop :: "runner \<Rightarrow> string list \<Rightarrow> world \<Rightarrow> unit outcome" where
  "enable_loop run [] w = (Inr (), w)"
| "enable_loop run (m # ms) w =
     (case enable_module run m w of
        (Inl e, w1) \<Rightarrow> (Inl e, w1)
      | (Inr u, w1) \<Rightarrow>
          enable_loop run ms (w1\<lparr>current_modules := insert m (current_modules w1)\<rparr>))"

text \<open>
  Python leaves the order in which a set is iterated open. The handler therefore takes
  the order as a parameter \<open>iter\<close>; \<open>set_iteration iter\<close> says that \<open>iter\<close> visits
  every element of a finite set once. \<open>modules\<close> is the configuration value
  \<^verbatim>\<open>config['modules']\<close>, a string.
\<close>

text \<open>Python's \<^verbatim>\<open>^\<close> on sets, the symmetric difference.\<close>

definition set_xor :: "'a set \<Rightarrow> 'a set \<Rightarrow> 'a set" where
  "set_xor A B = (A - B) \<union> (B - A)"

definition set_iteration :: "(string set \<Rightarrow> string list) \<Rightarrow> bool" where
  "set_iteration iter \<longleftrightarrow> (\<forall>S. finite S \<longrightarrow> set (iter S) = S \<and> distinct (iter S))"

definition on_config_changed ::
  "(string set \<Rightarrow> string list) \<Rightarrow> runner \<Rightarrow> string \<Rightarrow> world \<Rightarrow> unit outcome" where
  "on_config_changed iter run modules w =
     (let config_modules = set (split modules);
          modules_to_disable = current_modules w - config_modules;
          changed_modules = set_xor (current_modules w) config_modules
      in case disable_loop run (iter modules_to_disable) w of
           (Inl e, w1) \<Rightarrow> (Inl e, w1)
         | (Inr u, w1) \<Rightarrow>
             (case enable_loop run (iter config_modules) w1 of
                (Inl e, w2) \<Rightarrow> (Inl e, w2)
              | (Inr u, w2) \<Rightarrow>
                  (case (if changed_modules \<noteq> {}
                         then systemd_unit_command run ''restart'' HTTPD_SERVICE_NAME w2
                         else (Inr (), w2)) of
                     (Inl e, w3) \<Rightarrow> (Inl e, w3)
                   | (Inr u, w3) \<Rightarrow> assess_readiness run w3)))"

section \<open>Sites and virtual hosts\<close>

definition enable_site :: "runner \<Rightarrow> string \<Rightarrow> world \<Rightarrow> unit outcome" where
  "enable_site run site_name w =
     (case check_call run [''a2ensite'', site_name] w of
        (Inl e, w1) \<Rightarrow>
          (Inl (ApacheSiteEnableException
                 (''unable to enable apache2 site '' @ site_name @ ''.'')), w1)
      | (Inr u, w1) \<Rightarrow> (Inr (), w1))"

definition disable_site :: "runner \<Rightarrow> string \<Rightarrow> world \<Rightarrow> unit outcome" where
  "disable_site run site_name w =
     (case check_call run [''a2dissite'', site_name] w of
        (Inl e, w1) \<Rightarrow>
          (Inl (ApacheSiteDisableException
                 (''unable to disable apache2 site '' @ site_name @ ''.'')), w1)
      | (Inr u, w1) \<Rightarrow> (Inr (), w1))"

text \<open>
  A decoded vhost is a mapping from keys to scalars. \<^verbatim>\<open>yaml.safe_load\<close> and
  \<^verbatim>\<open>base64.b64decode(template).decode('utf-8')\<close> are library code: the handler takes
  them as the parameters \<open>safe_load\<close> and \<open>decode\<close>, each of which may raise. The model
  covers payloads that load as a list of mappings with integer or string values.
\<close>

datatype yval = YInt int | YStr string

type_synonym vhost = "string \<rightharpoonup> yval"

definition py_str :: "yval \<Rightarrow> string" where
  "py_str v = (case v of YInt i \<Rightarrow> str_int i | YStr s \<Rightarrow> s)"

definition subscript :: "vhost \<Rightarrow> string \<Rightarrow> error + yval" where
  "subscript v k = (case v k of None \<Rightarrow> Inl (KeyError k) | Some x \<Rightarrow> Inr x)"

definition APACHE_CONFIG_DIR :: string where
  "APACHE_CONFIG_DIR = ''/etc/apache2''"

definition create_vhost ::
  "(yval \<Rightarrow> error + string) \<Rightarrow> string \<Rightarrow> yval \<Rightarrow> yval \<Rightarrow> string option \<Rightarrow> world
     \<Rightarrow> string outcome" where
  "create_vhost decode server_name template port protocol w =
     (let protocol' = (case protocol of None \<Rightarrow> py_str port | Some p \<Rightarrow> p)
      in case decode template of
           Inl e \<Rightarrow> (Inl e, w)
         | Inr text \<Rightarrow>
             (let vhost_name = server_name @ ''_'' @ protocol';
                  vhost_file = [APACHE_CONFIG_DIR, ''sites-available'', vhost_name @ ''.conf'']
              in (Inr vhost_name, w\<lparr>trace := trace w @ [WriteText vhost_file text]\<rparr>)))"

text \<open>The body of the loop over the vhosts: line 180 of the source.\<close>

definition activate_vhost ::
  "(yval \<Rightarrow> error + string) \<Rightarrow> runner \<Rightarrow> string \<Rightarrow> vhost \<Rightarrow> world \<Rightarrow> unit outcome" where
  "activate_vhost decode run server_name v w =
     (case subscript v ''template'' of
        Inl e \<Rightarrow> (Inl e, w)
      | Inr template \<Rightarrow>
          (case subscript v ''port'' of
             Inl e \<Rightarrow> (Inl e, w)
           | Inr port \<Rightarrow>
               (case create_vhost decode server_name template port None w of
                  (Inl e, w1) \<Rightarrow> (Inl e, w1)
                | (Inr site_name, w1) \<Rightarrow> enable_site run site_name w1)))"

fun vhost_loop ::
  "(yval \<Rightarrow> error + string) \<Rightarrow> runner \<Rightarrow> string \<Rightarrow> vhost list \<Rightarrow> world \<Rightarrow> unit outcome" where
  "vhost_loop decode run server_name [] w = (Inr (), w)"
| "vhost_loop decode run server_name (v # vs) w =
     (case activate_vhost decode run server_name v w of
        (Inl e, w1) \<Rightarrow> (Inl e, w1)
      | (Inr u, w1) \<Rightarrow> vhost_loop decode run server_name vs w1)"

text \<open>
  The relation event: \<open>unit\<close> is \<^verbatim>\<open>event.unit\<close> (\<open>None\<close> while no remote unit is
  known) and \<open>vhosts\<close> is \<^verbatim>\<open>event.relation.data[event.app].get('vhosts')\<close>.
\<close>

record event =
  unit :: "string option"
  vhosts :: "string option"

definition on_vhost_config_relation_changed ::
  "(string \<Rightarrow> error + vhost list) \<Rightarrow> (yval \<Rightarrow> error + string) \<Rightarrow> runner \<Rightarrow> string
     \<Rightarrow> event \<Rightarrow> world \<Rightarrow> unit outcome" where
  "on_vhost_config_relation_changed safe_load decode run server_name ev w =
     (case ready w of
        None \<Rightarrow> (Inl (AttributeError ''ready''), w)
      | Some r \<Rightarrow>
          (if \<not> r then (Inr (), w\<lparr>trace := trace w @ [DeferEvent]\<rparr>)
           else
             (case unit ev of
                None \<Rightarrow> (Inr (), w)
              | Some peer \<Rightarrow>
                  (case vhosts ev of
                     None \<Rightarrow> (Inr (), w)
                   | Some vhosts_serialized \<Rightarrow>
                       (if vhosts_serialized = [] then (Inr (), w)
                        else
                          (case safe_load vhosts_serialized of
                             Inl e \<Rightarrow> (Inl e, w)
                           | Inr vs \<Rightarrow>
                               (case vhost_loop decode run server_name vs w of
                                  (Inl e, w1) \<Rightarrow> (Inl e, w1)
                                | (Inr u, w1) \<Rightarrow>
                                    systemd_unit_command run ''reload'' HTTPD_SERVICE_NAME w1)))))))"

section \<open>Installing packages\<close>

text \<open>
  The \<^verbatim>\<open>packages\<close> argument is untyped in the source. A list and a string are both
  instances of \<^verbatim>\<open>collections.abc.Sequence\<close>; extending a list by a string appends its
  characters one by one. \<open>PkgOther t\<close> is any value that is no sequence, with \<open>t\<close> the
  text \<^verbatim>\<open>type(packages)\<close> formats to.
\<close>

datatype packages_arg = PkgList "string list" | PkgStr string | PkgOther string

definition apt_install :: "runner \<Rightarrow> packages_arg \<Rightarrow> string list option \<Rightarrow> world \<Rightarrow> unit outcome" where
  "apt_install run packages options w =
     (let options' = (case options of
                        None \<Rightarrow> [''--option=Dpkg::Options::=--force-confold'']
                      | Some os \<Rightarrow> os);
          command = [''apt-get'', ''--assume-yes''] @ options' @ [''install'']
      in case packages of
           PkgList ps \<Rightarrow> check_call run (command @ ps) w
         | PkgStr s \<Rightarrow> check_call run (command @ map (\<lambda>c. [c]) s) w
         | PkgOther t \<Rightarrow>
             (Inl (ValueError
                    (''Invalid type was used for the '' @ [CHR 0x22] @ ''packages'' @ [CHR 0x22] @
                     '' argument: '' @ t @ '' instead of str'')), w))"

definition on_install :: "runner \<Rightarrow> world \<Rightarrow> unit outcome" where
  "on_install run w =
     (case apt_install run (PkgList [''apache2'']) None (w\<lparr>current_modules := {}\<rparr>) of
        (Inl e, w1) \<Rightarrow> (Inl e, w1)
      | (Inr u, w1) \<Rightarrow> disable_site run ''000-default.conf'' w1)"

section \<open>Observing a pass\<close>

text \<open>
  What a handler did is the part of the trace it appended. The observers below pick
  the commands of one kind out of it.
\<close>

definition issued :: "world \<Rightarrow> world \<Rightarrow> effect list" where
  "issued w w' = drop (length (trace w)) (trace w')"

definition restart_cmd :: effect where
  "restart_cmd = Exec [''systemctl'', ''restart'', ''apache2'']"

definition reload_cmd :: effect where
  "reload_cmd = Exec [''systemctl'', ''reload'', ''apache2'']"


fun is_disable :: "effect \<Rightarrow> bool" where
  "is_disable (Exec [c, m]) = (c = ''a2dismod'')"
| "is_disable e = False"

fun is_probe :: "effect \<Rightarrow> bool" where
  "is_probe (Exec [c, f, m]) = (c = ''a2query'' \<and> f = ''-m'')"
| "is_probe e = False"

fun is_activation :: "effect \<Rightarrow> bool" where
  "is_activation (Exec [c, m]) = (c = ''a2ensite'')"
| "is_activation e = False"

fun is_write :: "effect \<Rightarrow> bool" where
  "is_write (WriteText p t) = True"
| "is_write e = False"

text \<open>Whether an outcome is the exception a failing service command raises.\<close>

fun raised_systemctl :: "error + unit \<Rightarrow> bool" where
  "raised_systemctl (Inl (SystemctlCommandException msg)) = True"
| "raised_systemctl r = False"

definition enable_cmd :: "string \<Rightarrow> effect" where
  "enable_cmd m = Exec [''a2enmod'', m]"

text \<open>
  What the handler does for one vhost that it activates: the configuration is written
  under \<^verbatim>\<open>sites-available\<close>, then the site of the same name is enabled. \<open>activates\<close>
  relates a spec to these two effects, with the text its template decodes to.
\<close>

definition site_actions :: "string \<Rightarrow> yval \<Rightarrow> string \<Rightarrow> effect list" where
  "site_actions server_name port text =
     [WriteText [APACHE_CONFIG_DIR, ''sites-available'', server_name @ ''_'' @ py_str port @ ''.conf'']
        text,
      Exec [''a2ensite'', server_name @ ''_'' @ py_str port]]"

definition activates :: "(yval \<Rightarrow> error + string) \<Rightarrow> string \<Rightarrow> vhost \<Rightarrow> effect list \<Rightarrow> bool" where
  "activates decode server_name v acts \<longleftrightarrow>
     (\<exists>t p text. v ''template'' = Some t \<and> v ''port'' = Some p \<and> decode t = Inr text \<and>
                 acts = site_actions server_name p text)"



section \<open>Concrete scenarios\<close>

text \<open>Environments and starting states at which the theorems below are exercised.\<close>

definition all_succeed :: runner where
  "all_succeed tr argv = 0"

definition applied_ssl_headers :: world where
  "applied_ssl_headers = \<lparr>current_modules = {''ssl'', ''headers''}, ready = None, trace = []\<rparr>"

definition failing_enable :: runner where
  "failing_enable tr argv = (if take 1 argv = [''a2enmod''] then 1 else 0)"

definition nothing_applied :: world where
  "nothing_applied = \<lparr>current_modules = {}, ready = None, trace = []\<rparr>"


definition probe_exit :: "int \<Rightarrow> runner" where
  "probe_exit rc tr argv = (if take 1 argv = [''a2query''] then rc else 0)"

definition decode_table :: "yval \<Rightarrow> error + string" where
  "decode_table t =
     (if t = YStr ''TGlzdGVuIDgwODA='' then Inr ''Listen 8080''
      else if t = YStr ''TGlzdGVuIDQ0Mw=='' then Inr ''Listen 443''
      else Inl (DecodeError ''b64decode''))"

definition vhost_8080 :: vhost where
  "vhost_8080 = [''template'' \<mapsto> YStr ''TGlzdGVuIDgwODA='', ''port'' \<mapsto> YInt 8080]"

definition vhost_https :: vhost where
  "vhost_https =
     [''template'' \<mapsto> YStr ''TGlzdGVuIDQ0Mw=='', ''port'' \<mapsto> YInt 443,
      ''protocol'' \<mapsto> YStr ''https'']"

definition two_vhosts_yaml :: string where
  "two_vhosts_yaml =
     ''[{port: 8080, template: TGlzdGVuIDgwODA=}, {port: 443, protocol: https, template: TGlzdGVuIDQ0Mw==}]''"

definition load_two :: "string \<Rightarrow> error + vhost list" where
  "load_two s =
     (if s = two_vhosts_yaml then Inr [vhost_8080, vhost_https] else Inl (DecodeError ''yaml''))"

definition failing_ensite :: runner where
  "failing_ensite tr argv = (if take 1 argv = [''a2ensite''] then 1 else 0)"

definition ready_world :: world where
  "ready_world = \<lparr>current_modules = {''ssl''}, ready = Some True, trace = []\<rparr>"

definition not_ready_world :: world where
  "not_ready_world = \<lparr>current_modules = {''ssl''}, ready = Some False, trace = []\<rparr>"

definition peer_event :: event where
  "peer_event = \<lparr>unit = Some ''vhost-provider/0'', vhosts = Some two_vhosts_yaml\<rparr>"

definition failing_restart :: runner where
  "failing_restart tr argv = (if argv = [''systemctl'', ''restart'', ''apache2''] then 5 else 0)"



section \<open>Effects of the single operations\<close>

lemma issued_append: "trace w' = trace w @ d \<Longrightarrow> issued w w' = d"
  by (simp add: issued_def)

lemma disable_module_effect:
  assumes "disable_module run m w = (r, w')"
  shows "current_modules w' = current_modules w \<and> ready w' = ready w \<and>
         (trace w' = trace w @ [Exec [''a2query'', ''-m'', m]] \<or>
          trace w' = trace w @ [Exec [''a2query'', ''-m'', m], Exec [''a2dismod'', m]])"
  using assms
  by (auto simp: disable_module_def get_module_state_def call_def check_call_def ModuleState_def
           split: if_splits sum.splits prod.splits)

lemma disable_module_error:
  assumes "disable_module run m w = (Inl e, w')"
  shows "(\<exists>msg. e = ApacheModuleDisableException msg) \<or> (\<exists>msg. e = ValueError msg)"
  using assms
  by (auto simp: disable_module_def get_module_state_def call_def check_call_def ModuleState_def
           split: if_splits sum.splits prod.splits)

lemma enable_module_effect:
  assumes "enable_module run m w = (r, w')"
  shows "current_modules w' = current_modules w \<and> ready w' = ready w \<and>
         trace w' = trace w @ [Exec [''a2enmod'', m]] \<and>
         (r = Inr () \<or> r = Inl (ApacheModuleEnableException (''unable to enable apache2 module '' @ m @ ''.'')))"
  using assms
  by (auto simp: enable_module_def call_def check_call_def split: if_splits sum.splits prod.splits)


lemma disable_loop_effect:
  "disable_loop run ms w = (r, w') \<Longrightarrow>
     ready w' = ready w \<and> current_modules w - set ms \<subseteq> current_modules w' \<and> current_modules w' \<subseteq> current_modules w \<and>
     (r = Inr () \<longrightarrow> current_modules w' = current_modules w - set ms) \<and>
     (\<exists>d. trace w' = trace w @ d \<and> (\<forall>e\<in>set d. is_probe e \<or> is_disable e))"
proof (induction ms arbitrary: w)
  case Nil
  then show ?case by auto
next
  case (Cons m ms)
  obtain r1 w1 where dm: "disable_module run m w = (r1, w1)" by (cases "disable_module run m w")
  note eff = disable_module_effect[OF dm]
  have tp: "\<exists>d. trace w1 = trace w @ d \<and> (\<forall>e\<in>set d. is_probe e \<or> is_disable e)"
    using eff by auto
  show ?case
  proof (cases "r1 = Inr () \<and> m \<in> current_modules w1")
    case True
    let ?w2 = "w1\<lparr>current_modules := current_modules w1 - {m}\<rparr>"
    from True Cons.prems dm have "disable_loop run ms ?w2 = (r, w')" by simp
    from Cons.IH[OF this] eff tp show ?thesis by auto
  next
    case False
    with Cons.prems dm have "w' = w1" "r \<noteq> Inr ()"
      by (auto split: sum.splits if_splits)
    with eff tp show ?thesis by auto
  qed
qed


lemma disable_loop_error:
  "disable_loop run ms w = (Inl e, w') \<Longrightarrow>
     (\<exists>msg. e = ApacheModuleDisableException msg) \<or> (\<exists>msg. e = ValueError msg) \<or>
     (\<exists>k. e = KeyError k)"
proof (induction ms arbitrary: w)
  case Nil
  then show ?case by simp
next
  case (Cons m ms)
  obtain r1 w1 where dm: "disable_module run m w = (r1, w1)" by (cases "disable_module run m w")
  show ?case
  proof (cases r1)
    case (Inl e1)
    with Cons.prems dm have "e = e1" by simp
    with disable_module_error dm Inl show ?thesis by blast
  next
    case (Inr u)
    show ?thesis
    proof (cases "m \<in> current_modules w1")
      case True
      with Cons.prems dm Inr
      have "disable_loop run ms (w1\<lparr>current_modules := current_modules w1 - {m}\<rparr>) = (Inl e, w')"
        by simp
      from Cons.IH[OF this] show ?thesis .
    next
      case False
      with Cons.prems dm Inr show ?thesis by auto
    qed
  qed
qed


lemma enable_loop_effect:
  "enable_loop run ms w = (r, w') \<Longrightarrow>
     ready w' = ready w \<and>
     (r = Inr () \<longrightarrow> current_modules w' = current_modules w \<union> set ms \<and>
                      trace w' = trace w @ map enable_cmd ms) \<and>
     (\<exists>k\<le>length ms. trace w' = trace w @ map enable_cmd (take k ms)) \<and>
     (\<forall>e. r = Inl e \<longrightarrow> (\<exists>msg. e = ApacheModuleEnableException msg))"
proof (induction ms arbitrary: w)
  case Nil
  then show ?case by auto
next
  case (Cons m ms)
  obtain r1 w1 where em: "enable_module run m w = (r1, w1)" by (cases "enable_module run m w")
  note eff = enable_module_effect[OF em]
  show ?case
  proof (cases "r1 = Inr ()")
    case True
    let ?w2 = "w1\<lparr>current_modules := insert m (current_modules w1)\<rparr>"
    from True Cons.prems em have step: "enable_loop run ms ?w2 = (r, w')" by simp
    note ih = Cons.IH[OF step]
    from ih obtain k where k: "k \<le> length ms" "trace w' = trace ?w2 @ map enable_cmd (take k ms)"
      by blast
    have "Suc k \<le> length (m # ms) \<and> trace w' = trace w @ map enable_cmd (take (Suc k) (m # ms))"
      using k eff by (simp add: enable_cmd_def)
    then have ex: "\<exists>k\<le>length (m # ms). trace w' = trace w @ map enable_cmd (take k (m # ms))"
      by blast
    from ih eff ex show ?thesis by (auto simp: enable_cmd_def)
  next
    case False
    with eff obtain msg where r1: "r1 = Inl (ApacheModuleEnableException msg)" by blast
    with Cons.prems em have rw: "r = r1" "w' = w1" by auto
    have "(0::nat) \<le> length (m # ms) \<and> trace w' = trace w @ [enable_cmd m] @ map enable_cmd (take 0 ms)" 
      using eff rw by (simp add: enable_cmd_def)
    have ex: "\<exists>k\<le>length (m # ms). trace w' = trace w @ map enable_cmd (take k (m # ms))"
      using eff rw by (intro exI[of _ 1]) (simp add: enable_cmd_def)
    from eff rw r1 ex show ?thesis by auto
  qed
qed

lemma systemd_unit_command_effect:
  assumes "systemd_unit_command run command name w = (r, w')"
  shows "current_modules w' = current_modules w \<and> ready w' = ready w \<and>
         (command \<in> SYSTEMCTL_COMMANDS \<longrightarrow> trace w' = trace w @ [Exec [''systemctl'', command, name]]) \<and>
         (command \<notin> SYSTEMCTL_COMMANDS \<longrightarrow> w' = w) \<and>
         (\<forall>e. r = Inl e \<longrightarrow> (\<exists>msg. e = SystemctlCommandException msg) \<or> (\<exists>msg. e = NotImplementedError msg))"
  using assms
  by (auto simp: systemd_unit_command_def call_def split: if_splits prod.splits)

lemma assess_readiness_effect:
  assumes "assess_readiness run w = (r, w')"
  shows "r = Inr () \<and> current_modules w' = current_modules w \<and>
         (trace w' = trace w @ [Exec [''systemctl'', ''is-active'', ''apache2'']] \<or>
          trace w' = trace w @ [Exec [''systemctl'', ''is-active'', ''apache2''], EmitApacheReady, SetStatusActive])"
  using assms
  by (auto simp: assess_readiness_def is_systemd_unit_active_def call_def on_apache_ready_def
                 HTTPD_SERVICE_NAME_def split: if_splits prod.splits)

lemma restart_in_commands: "''restart'' \<in> SYSTEMCTL_COMMANDS"
  by (simp add: SYSTEMCTL_COMMANDS_def)



lemma on_config_changed_cases:
  assumes "on_config_changed iter run modules w = (r, w')"
  obtains
    (disable_failed) e where
      "disable_loop run (iter (current_modules w - set (split modules))) w = (Inl e, w')"
      "r = Inl e"
  | (enable_failed) w1 e where
      "disable_loop run (iter (current_modules w - set (split modules))) w = (Inr (), w1)"
      "enable_loop run (iter (set (split modules))) w1 = (Inl e, w')"
      "r = Inl e"
  | (restart_failed) w1 w2 e where
      "disable_loop run (iter (current_modules w - set (split modules))) w = (Inr (), w1)"
      "enable_loop run (iter (set (split modules))) w1 = (Inr (), w2)"
      "set_xor (current_modules w) (set (split modules)) \<noteq> {}"
      "systemd_unit_command run ''restart'' ''apache2'' w2 = (Inl e, w')"
      "r = Inl e"
  | (restarted) w1 w2 w3 where
      "disable_loop run (iter (current_modules w - set (split modules))) w = (Inr (), w1)"
      "enable_loop run (iter (set (split modules))) w1 = (Inr (), w2)"
      "set_xor (current_modules w) (set (split modules)) \<noteq> {}"
      "systemd_unit_command run ''restart'' ''apache2'' w2 = (Inr (), w3)"
      "assess_readiness run w3 = (r, w')"
  | (unchanged) w1 w2 where
      "disable_loop run (iter (current_modules w - set (split modules))) w = (Inr (), w1)"
      "enable_loop run (iter (set (split modules))) w1 = (Inr (), w2)"
      "set_xor (current_modules w) (set (split modules)) = {}"
      "assess_readiness run w2 = (r, w')"
proof -
  obtain r1 w1 where d: "disable_loop run (iter (current_modules w - set (split modules))) w = (r1, w1)"
    by (cases "disable_loop run (iter (current_modules w - set (split modules))) w")
  obtain r2 w2 where e: "enable_loop run (iter (set (split modules))) w1 = (r2, w2)"
    by (cases "enable_loop run (iter (set (split modules))) w1")
  obtain r3 w3 where s: "systemd_unit_command run ''restart'' ''apache2'' w2 = (r3, w3)"
    by (cases "systemd_unit_command run ''restart'' ''apache2'' w2")
  show thesis
  proof (cases r1)
    case (Inl e1)
    with assms d have "r = Inl e1" "w' = w1"
      by (simp_all add: on_config_changed_def Let_def)
    with d Inl disable_failed show thesis by simp
  next
    case r1: (Inr u1)
    show thesis
    proof (cases r2)
      case (Inl e2)
      with assms d e r1 have "r = Inl e2" "w' = w2"
        by (simp_all add: on_config_changed_def Let_def)
      with d e r1 Inl enable_failed show thesis by simp
    next
      case r2: (Inr u2)
      show thesis
      proof (cases "set_xor (current_modules w) (set (split modules)) = {}")
        case True
        with assms d e r1 r2 have "assess_readiness run w2 = (r, w')"
          by (simp add: on_config_changed_def Let_def)
        with d e r1 r2 True unchanged show thesis by simp
      next
        case False
        show thesis
        proof (cases r3)
          case (Inl e3)
          with assms d e s r1 r2 False have "r = Inl e3" "w' = w3"
            by (simp_all add: on_config_changed_def Let_def HTTPD_SERVICE_NAME_def)
          with d e s r1 r2 False Inl restart_failed show thesis by simp
        next
          case (Inr u3)
          with assms d e s r1 r2 False have "assess_readiness run w3 = (r, w')"
            by (simp add: on_config_changed_def Let_def HTTPD_SERVICE_NAME_def)
          with d e s r1 r2 False Inr restarted show thesis by simp
        qed
      qed
    qed
  qed
qed

lemma not_restart_probe: "is_probe e \<or> is_disable e \<Longrightarrow> e \<noteq> restart_cmd"
  by (auto simp: restart_cmd_def)

lemma restart_not_enable: "restart_cmd \<notin> set (map enable_cmd ms)"
  by (auto simp: restart_cmd_def enable_cmd_def)

lemma count_restart_toggles:
  "\<forall>e\<in>set d. is_probe e \<or> is_disable e \<Longrightarrow> count_list d restart_cmd = 0"
proof -
  assume a: "\<forall>e\<in>set d. is_probe e \<or> is_disable e"
  have "restart_cmd \<notin> set d"
  proof
    assume "restart_cmd \<in> set d"
    with a have "is_probe restart_cmd \<or> is_disable restart_cmd" by blast
    then show False by (simp add: restart_cmd_def)
  qed
  then show ?thesis by (simp add: count_list_0_iff)
qed

lemma count_restart_enables: "count_list (map enable_cmd ms) restart_cmd = 0"
  using restart_not_enable by (simp add: count_list_0_iff)

lemma count_restart_readiness:
  assumes "assess_readiness run w = (r, w')"
  obtains d where "trace w' = trace w @ d" "count_list d restart_cmd = 0" "r = Inr ()"
  using assess_readiness_effect[OF assms] by (auto simp: restart_cmd_def)

lemma toggles_never_restart:
  assumes "disable_loop run ds w = (r1, w1)" and "enable_loop run es w1 = (r2, w2)"
  obtains d where "trace w2 = trace w @ d" "count_list d restart_cmd = 0"
proof -
  from disable_loop_effect[OF assms(1)] obtain d1
    where d1: "trace w1 = trace w @ d1" "\<forall>e\<in>set d1. is_probe e \<or> is_disable e" by blast
  from enable_loop_effect[OF assms(2)] obtain k
    where k: "trace w2 = trace w1 @ map enable_cmd (take k es)" by blast
  have c1: "count_list d1 restart_cmd = 0" by (rule count_restart_toggles[OF d1(2)])
  have c2: "count_list (map enable_cmd (take k es)) restart_cmd = 0" by (rule count_restart_enables)
  have "trace w2 = trace w @ (d1 @ map enable_cmd (take k es))" using d1(1) k by simp
  moreover have "count_list (d1 @ map enable_cmd (take k es)) restart_cmd = 0"
    using c1 c2 by simp
  ultimately show thesis by (rule that)
qed

lemma restart_command_trace:
  assumes "systemd_unit_command run ''restart'' ''apache2'' w = (r, w')"
  shows "trace w' = trace w @ [restart_cmd]"
  using systemd_unit_command_effect[OF assms] restart_in_commands by (simp add: restart_cmd_def)

lemma restart_count_mem: "count_list xs x \<le> 1 \<Longrightarrow> x \<in> set xs \<longleftrightarrow> count_list xs x = 1"
  using count_list_0_iff[of xs x] by auto



section \<open>Reconciliation reaches the desired module set\<close>

text \<open>
  C1. For every configured module string and every finite starting set of applied
  modules: when \<open>on_config_changed\<close> completes without raising, the stored
  \<open>current_modules\<close> is exactly the set of modules named in the configuration.
\<close>

theorem reconcile_applies_desired:
  assumes iter: "set_iteration iter"
    and fin: "finite (current_modules w)"
    and ok: "on_config_changed iter run modules w = (Inr (), w')"
  shows "current_modules w' = set (split modules)"
proof -
  let ?C = "current_modules w" and ?D = "set (split modules)"
  have dis: "set (iter (?C - ?D)) = ?C - ?D"
    using iter fin by (simp add: set_iteration_def)
  have en: "set (iter ?D) = ?D"
    using iter by (simp add: set_iteration_def)
  have loops: "current_modules w2 = ?D"
    if "disable_loop run (iter (?C - ?D)) w = (Inr (), w1)"
      and "enable_loop run (iter ?D) w1 = (Inr (), w2)" for w1 w2
  proof -
    from disable_loop_effect[OF that(1)] dis have "current_modules w1 = ?C - (?C - ?D)" by simp
    moreover from enable_loop_effect[OF that(2)] en
    have "current_modules w2 = current_modules w1 \<union> ?D" by simp
    ultimately show ?thesis by auto
  qed
  from ok show ?thesis
  proof (cases rule: on_config_changed_cases)
    case (restarted w1 w2 w3)
    from systemd_unit_command_effect[OF restarted(4)] assess_readiness_effect[OF restarted(5)]
      loops[OF restarted(1,2)]
    show ?thesis by simp
  next
    case (unchanged w1 w2)
    from assess_readiness_effect[OF unchanged(4)] loops[OF unchanged(1,2)]
    show ?thesis by simp
  qed simp_all
qed

theorem reconcile_applies_desired_witness:
  "set_iteration sorted_list_of_set \<and> finite (current_modules applied_ssl_headers) \<and>
   fst (on_config_changed sorted_list_of_set all_succeed ''headers rewrite'' applied_ssl_headers)
     = Inr () \<and>
   current_modules
     (snd (on_config_changed sorted_list_of_set all_succeed ''headers rewrite'' applied_ssl_headers))
     = set (split ''headers rewrite'')"
proof -
  have a: "set_iteration sorted_list_of_set"
    by (simp add: set_iteration_def)
  have b: "finite (current_modules applied_ssl_headers)"
    by (simp add: applied_ssl_headers_def)
  have c: "fst (on_config_changed sorted_list_of_set all_succeed ''headers rewrite''
                  applied_ssl_headers) = Inr ()"
    by code_simp
  then have d: "on_config_changed sorted_list_of_set all_succeed ''headers rewrite''
                  applied_ssl_headers
     = (Inr (), snd (on_config_changed sorted_list_of_set all_succeed ''headers rewrite''
                       applied_ssl_headers))"
    by (simp add: prod_eq_iff)
  from reconcile_applies_desired[OF a b d] a b c show ?thesis by simp
qed

section \<open>When a pass restarts the service\<close>

text \<open>
  C2, as amended. Every pass issues at most one restart, and issues it only when the
  symmetric difference of the applied set (read before any mutation) and the desired set
  is non-empty. A pass in which no module disable or enable raises, that is, one that
  completes or fails only in the service command, issues the restart if and only if that
  symmetric difference is non-empty.
\<close>

theorem restart_iff_changed:
  assumes pass: "on_config_changed iter run modules w = (r, w')"
  shows "count_list (issued w w') restart_cmd \<le> 1 \<and>
         (restart_cmd \<in> set (issued w w') \<longrightarrow>
            set_xor (current_modules w) (set (split modules)) \<noteq> {}) \<and>
         (r = Inr () \<or> (\<exists>msg. r = Inl (SystemctlCommandException msg)) \<longrightarrow>
            (restart_cmd \<in> set (issued w w') \<longleftrightarrow>
               set_xor (current_modules w) (set (split modules)) \<noteq> {}))"
proof -
  let ?X = "set_xor (current_modules w) (set (split modules))"
  let ?ok = "r = Inr () \<or> (\<exists>msg. r = Inl (SystemctlCommandException msg))"
  let ?n = "count_list (issued w w') restart_cmd"
  have key: "(?n = 0 \<and> (?X = {} \<or> \<not> ?ok)) \<or> (?n = 1 \<and> ?X \<noteq> {})"
    using pass
  proof (cases rule: on_config_changed_cases)
    case (disable_failed e)
    have "enable_loop run [] w' = (Inr (), w')" by simp
    from toggles_never_restart[OF disable_failed(1) this] obtain d
      where d: "trace w' = trace w @ d" "count_list d restart_cmd = 0" .
    have "?n = 0" using d by (simp add: issued_append)
    moreover have "\<not> ?ok"
      using disable_loop_error[OF disable_failed(1)] disable_failed(2) by auto
    ultimately show ?thesis by blast
  next
    case (enable_failed w1 e)
    from toggles_never_restart[OF enable_failed(1,2)] obtain d
      where d: "trace w' = trace w @ d" "count_list d restart_cmd = 0" .
    have "?n = 0" using d by (simp add: issued_append)
    moreover have "\<not> ?ok"
      using enable_loop_effect[OF enable_failed(2)] enable_failed(3) by auto
    ultimately show ?thesis by blast
  next
    case (restart_failed w1 w2 e)
    from toggles_never_restart[OF restart_failed(1,2)] obtain d
      where d: "trace w2 = trace w @ d" "count_list d restart_cmd = 0" .
    have "trace w' = trace w @ (d @ [restart_cmd])"
      using d(1) restart_command_trace[OF restart_failed(4)] by simp
    then have "issued w w' = d @ [restart_cmd]" by (rule issued_append)
    then have "?n = 1" using d(2) by simp
    with restart_failed(3) show ?thesis by blast
  next
    case (restarted w1 w2 w3)
    from toggles_never_restart[OF restarted(1,2)] obtain d
      where d: "trace w2 = trace w @ d" "count_list d restart_cmd = 0" .
    from restarted(5) obtain d' where d': "trace w' = trace w3 @ d'" "count_list d' restart_cmd = 0"
      by (rule count_restart_readiness)
    have "trace w' = trace w @ (d @ [restart_cmd] @ d')"
      using d(1) d'(1) restart_command_trace[OF restarted(4)] by simp
    then have "issued w w' = d @ [restart_cmd] @ d'" by (rule issued_append)
    then have "?n = 1" using d(2) d'(2) by simp
    with restarted(3) show ?thesis by blast
  next
    case (unchanged w1 w2)
    from toggles_never_restart[OF unchanged(1,2)] obtain d
      where d: "trace w2 = trace w @ d" "count_list d restart_cmd = 0" .
    from unchanged(4) obtain d' where d': "trace w' = trace w2 @ d'" "count_list d' restart_cmd = 0"
      by (rule count_restart_readiness)
    have "trace w' = trace w @ (d @ d')" using d(1) d'(1) by simp
    then have "issued w w' = d @ d'" by (rule issued_append)
    then have "?n = 0" using d(2) d'(2) by simp
    with unchanged(3) show ?thesis by blast
  qed
  then have le: "?n \<le> 1" by auto
  note mem = restart_count_mem[OF le]
  from key show ?thesis unfolding mem using le by auto
qed

text \<open>
  As the claim is worded, for every pass, it fails: when \<^verbatim>\<open>a2enmod\<close> exits non-zero the
  pass raises before the restart, although the symmetric difference is non-empty.
\<close>

theorem restart_iff_changed_counterexample:
  "set_xor (current_modules nothing_applied) (set (split ''ssl'')) \<noteq> {} \<and>
   restart_cmd \<notin> set (issued nothing_applied
     (snd (on_config_changed sorted_list_of_set failing_enable ''ssl'' nothing_applied)))"
  by code_simp

theorem restart_iff_changed_witness:
  "fst (on_config_changed sorted_list_of_set all_succeed ''headers rewrite'' applied_ssl_headers)
     = Inr () \<and>
   set_xor (current_modules applied_ssl_headers) (set (split ''headers rewrite'')) \<noteq> {} \<and>
   restart_cmd \<in> set (issued applied_ssl_headers
     (snd (on_config_changed sorted_list_of_set all_succeed ''headers rewrite''
             applied_ssl_headers))) \<and>
   count_list (issued applied_ssl_headers
     (snd (on_config_changed sorted_list_of_set all_succeed ''headers rewrite''
             applied_ssl_headers))) restart_cmd \<le> 1"
proof -
  let ?p = "on_config_changed sorted_list_of_set all_succeed ''headers rewrite'' applied_ssl_headers"
  have a: "fst ?p = Inr ()" by code_simp
  have b: "set_xor (current_modules applied_ssl_headers) (set (split ''headers rewrite'')) \<noteq> {}"
    by code_simp
  have c: "?p = (fst ?p, snd ?p)" by simp
  from restart_iff_changed[OF c] a b show ?thesis by simp
qed

section \<open>A pass with nothing to change\<close>








section \<open>Disabling a module by its probed state\<close>

lemma probe_effect:
  "get_module_state run m w =
     (ModuleState (run (trace w) [''a2query'', ''-m'', m]),
      w\<lparr>trace := trace w @ [Exec [''a2query'', ''-m'', m]]\<rparr>)"
  by (simp add: get_module_state_def call_def)

text \<open>
  C4. A module whose probe reports \<open>OffByAdmin\<close> or \<open>OffByMaintainer\<close> is disabled
  successfully by the probe alone: \<^verbatim>\<open>a2dismod\<close> is not run. A module whose probe reports
  \<open>NotFound\<close> makes \<open>disable_module\<close>, and with it the iteration of the loop that selected
  the module, raise \<^verbatim>\<open>ApacheModuleDisableException\<close>; \<^verbatim>\<open>a2dismod\<close> is not run and
  \<open>current_modules\<close> is as it was, so the module is still a member.
\<close>

theorem disable_by_probed_state:
  "(fst (get_module_state run m w) \<in> {Inr OffByAdmin, Inr OffByMaintainer} \<longrightarrow>
      disable_module run m w = (Inr (), snd (get_module_state run m w)) \<and>
      issued w (snd (disable_module run m w)) = [Exec [''a2query'', ''-m'', m]] \<and>
      filter is_disable (issued w (snd (disable_module run m w))) = []) \<and>
   (fst (get_module_state run m w) = Inr NotFound \<longrightarrow>
      fst (disable_module run m w)
        = Inl (ApacheModuleDisableException (''module '' @ m @ '' was not found.'')) \<and>
      fst (disable_loop run (m # ms) w)
        = Inl (ApacheModuleDisableException (''module '' @ m @ '' was not found.'')) \<and>
      filter is_disable (issued w (snd (disable_loop run (m # ms) w))) = [] \<and>
      current_modules (snd (disable_loop run (m # ms) w)) = current_modules w)"
proof (intro conjI impI)
  assume a: "fst (get_module_state run m w) \<in> {Inr OffByAdmin, Inr OffByMaintainer}"
  obtain s w1 where g: "get_module_state run m w = (s, w1)" by (cases "get_module_state run m w")
  from g have w1: "w1 = w\<lparr>trace := trace w @ [Exec [''a2query'', ''-m'', m]]\<rparr>"
    by (simp add: probe_effect)
  from a g have s: "s = Inr OffByAdmin \<or> s = Inr OffByMaintainer" by simp
  then have dm: "disable_module run m w = (Inr (), w1)"
    using g by (auto simp: disable_module_def)
  then show "disable_module run m w = (Inr (), snd (get_module_state run m w))"
    using g by simp
  from dm w1 show "issued w (snd (disable_module run m w)) = [Exec [''a2query'', ''-m'', m]]"
    by (simp add: issued_def)
  then show "filter is_disable (issued w (snd (disable_module run m w))) = []"
    by simp
next
  assume a: "fst (get_module_state run m w) = Inr NotFound"
  obtain s w1 where g: "get_module_state run m w = (s, w1)" by (cases "get_module_state run m w")
  from g have w1: "w1 = w\<lparr>trace := trace w @ [Exec [''a2query'', ''-m'', m]]\<rparr>"
    by (simp add: probe_effect)
  from a g have s: "s = Inr NotFound" by simp
  have dm: "disable_module run m w
      = (Inl (ApacheModuleDisableException (''module '' @ m @ '' was not found.'')), w1)"
    using g s by (simp add: disable_module_def)
  then show "fst (disable_module run m w)
      = Inl (ApacheModuleDisableException (''module '' @ m @ '' was not found.''))" by simp
  from dm have dl: "disable_loop run (m # ms) w
      = (Inl (ApacheModuleDisableException (''module '' @ m @ '' was not found.'')), w1)"
    by simp
  then show "fst (disable_loop run (m # ms) w)
      = Inl (ApacheModuleDisableException (''module '' @ m @ '' was not found.''))" by simp
  from dl w1 show "filter is_disable (issued w (snd (disable_loop run (m # ms) w))) = []"
    by (simp add: issued_def)
  from dl w1 show "current_modules (snd (disable_loop run (m # ms) w)) = current_modules w"
    by simp
qed

theorem disable_by_probed_state_witness:
  "fst (get_module_state (probe_exit 32) ''ssl'' applied_ssl_headers) = Inr OffByAdmin \<and>
   disable_module (probe_exit 32) ''ssl'' applied_ssl_headers
     = (Inr (), snd (get_module_state (probe_exit 32) ''ssl'' applied_ssl_headers)) \<and>
   filter is_disable (issued applied_ssl_headers
     (snd (disable_module (probe_exit 32) ''ssl'' applied_ssl_headers))) = [] \<and>
   fst (get_module_state (probe_exit 1) ''ssl'' applied_ssl_headers) = Inr NotFound \<and>
   fst (disable_loop (probe_exit 1) [''ssl'', ''headers''] applied_ssl_headers)
     = Inl (ApacheModuleDisableException (''module '' @ ''ssl'' @ '' was not found.'')) \<and>
   current_modules (snd (disable_loop (probe_exit 1) [''ssl'', ''headers''] applied_ssl_headers))
     = current_modules applied_ssl_headers"
proof -
  have a: "fst (get_module_state (probe_exit 32) ''ssl'' applied_ssl_headers) = Inr OffByAdmin"
    by (simp add: probe_effect probe_exit_def ModuleState_def)
  then have a': "fst (get_module_state (probe_exit 32) ''ssl'' applied_ssl_headers)
      \<in> {Inr OffByAdmin, Inr OffByMaintainer}" by simp
  have b: "fst (get_module_state (probe_exit 1) ''ssl'' applied_ssl_headers) = Inr NotFound"
    by (simp add: probe_effect probe_exit_def ModuleState_def)
  from disable_by_probed_state[of "probe_exit 32" "''ssl''" applied_ssl_headers "[''headers'']"]
    disable_by_probed_state[of "probe_exit 1" "''ssl''" applied_ssl_headers "[''headers'']"]
    a a' b
  show ?thesis by blast
qed

section \<open>Activating virtual hosts\<close>

lemma activate_vhost_ok:
  assumes "activate_vhost decode run server_name v w = (Inr (), w')"
  shows "\<exists>acts. activates decode server_name v acts \<and> trace w' = trace w @ acts"
  using assms
  by (auto simp: activate_vhost_def subscript_def create_vhost_def enable_site_def check_call_def
                 call_def activates_def site_actions_def Let_def
           split: option.splits sum.splits prod.splits if_splits)

lemma vhost_loop_ok:
  "vhost_loop decode run server_name vs w = (Inr (), w') \<Longrightarrow>
     \<exists>acts. list_all2 (activates decode server_name) vs acts \<and> trace w' = trace w @ concat acts"
proof (induction vs arbitrary: w)
  case Nil
  then show ?case by simp
next
  case (Cons v vs)
  obtain r1 w1 where a: "activate_vhost decode run server_name v w = (r1, w1)"
    by (cases "activate_vhost decode run server_name v w")
  with Cons.prems have r1: "r1 = Inr ()" and rest: "vhost_loop decode run server_name vs w1 = (Inr (), w')"
    by (auto split: sum.splits)
  from activate_vhost_ok a r1 obtain act
    where act: "activates decode server_name v act" "trace w1 = trace w @ act" by blast
  from Cons.IH[OF rest] obtain acts
    where acts: "list_all2 (activates decode server_name) vs acts" "trace w' = trace w1 @ concat acts"
    by blast
  have "list_all2 (activates decode server_name) (v # vs) (act # acts)"
    using act(1) acts(1) by simp
  moreover have "trace w' = trace w @ concat (act # acts)"
    using act(2) acts(2) by simp
  ultimately show ?case by blast
qed

lemma activates_counts:
  "list_all2 (activates decode server_name) vs acts \<Longrightarrow>
     length (filter is_write (concat acts)) = length vs \<and>
     length (filter is_activation (concat acts)) = length vs \<and>
     count_list (concat acts) reload_cmd = 0"
  by (induction rule: list_all2_induct) (auto simp: activates_def site_actions_def reload_cmd_def)

lemma reload_in_commands: "''reload'' \<in> SYSTEMCTL_COMMANDS"
  by (simp add: SYSTEMCTL_COMMANDS_def)

lemma reload_command_trace:
  assumes "systemd_unit_command run ''reload'' ''apache2'' w = (r, w')"
  shows "trace w' = trace w @ [reload_cmd]"
  using systemd_unit_command_effect[OF assms] reload_in_commands by (simp add: reload_cmd_def)

lemma str_int_8080: "str_int 8080 = ''8080''"
  by (simp add: str_int_def str_nat.simps digit_char_def)

lemma str_int_443: "str_int 443 = ''443''"
  by (simp add: str_int_def str_nat.simps digit_char_def)

lemmas vhost_eval =
  on_vhost_config_relation_changed_def activate_vhost_def subscript_def create_vhost_def
  enable_site_def systemd_unit_command_def check_call_def call_def py_str_def
  decode_table_def vhost_8080_def vhost_https_def load_two_def two_vhosts_yaml_def
  peer_event_def ready_world_def APACHE_CONFIG_DIR_def HTTPD_SERVICE_NAME_def
  SYSTEMCTL_COMMANDS_def str_int_8080 str_int_443 Let_def issued_def

text \<open>
  C5, as amended. A pass entered with readiness true, a peer and a non-empty payload that
  loads as the specs \<open>vs\<close>, in which every spec is written and activated without raising,
  performs for each spec in payload order one write followed by the activation of the
  site written, and then one reload after all of them: as many writes and as many
  activations as there are specs, and exactly one reload.
\<close>

theorem activate_vhosts_in_order:
  assumes rdy: "ready w = Some True"
    and peer: "unit ev = Some peer"
    and payload: "vhosts ev = Some payload" "payload \<noteq> []"
    and loaded: "safe_load payload = Inr vs"
    and ok: "fst (vhost_loop decode run server_name vs w) = Inr ()"
  shows "\<exists>acts. list_all2 (activates decode server_name) vs acts \<and>
           issued w (snd (on_vhost_config_relation_changed safe_load decode run server_name ev w))
             = concat acts @ [reload_cmd] \<and>
           length (filter is_write
             (issued w (snd (on_vhost_config_relation_changed safe_load decode run server_name ev w))))
             = length vs \<and>
           length (filter is_activation
             (issued w (snd (on_vhost_config_relation_changed safe_load decode run server_name ev w))))
             = length vs \<and>
           count_list
             (issued w (snd (on_vhost_config_relation_changed safe_load decode run server_name ev w)))
             reload_cmd = 1"
proof -
  let ?h = "on_vhost_config_relation_changed safe_load decode run server_name ev w"
  obtain w1 where loop: "vhost_loop decode run server_name vs w = (Inr (), w1)"
    using ok by (cases "vhost_loop decode run server_name vs w") simp
  obtain r2 w2 where reload: "systemd_unit_command run ''reload'' ''apache2'' w1 = (r2, w2)"
    by (cases "systemd_unit_command run ''reload'' ''apache2'' w1")
  have h: "?h = (r2, w2)"
    using rdy peer payload loaded loop reload
    by (simp add: on_vhost_config_relation_changed_def HTTPD_SERVICE_NAME_def)
  from vhost_loop_ok[OF loop] obtain acts
    where acts: "list_all2 (activates decode server_name) vs acts" "trace w1 = trace w @ concat acts"
    by blast
  have "trace w2 = trace w @ (concat acts @ [reload_cmd])"
    using acts(2) reload_command_trace[OF reload] by simp
  then have iss: "issued w (snd ?h) = concat acts @ [reload_cmd]"
    using h by (simp add: issued_append)
  note cnt = activates_counts[OF acts(1)]
  have "length (filter is_write (issued w (snd ?h))) = length vs"
    using iss cnt by (simp add: reload_cmd_def)
  moreover have "length (filter is_activation (issued w (snd ?h))) = length vs"
    using iss cnt by (simp add: reload_cmd_def)
  moreover have "count_list (issued w (snd ?h)) reload_cmd = 1"
    using iss cnt by simp
  ultimately show ?thesis using acts(1) iss by blast
qed

text \<open>
  As the claim is worded, for every such pass, it fails: when \<^verbatim>\<open>a2ensite\<close> exits non-zero
  for the first of two specs, the pass raises after one write and issues no reload.
\<close>

theorem activate_vhosts_in_order_counterexample:
  "ready ready_world = Some True \<and>
   unit peer_event = Some ''vhost-provider/0'' \<and>
   vhosts peer_event = Some two_vhosts_yaml \<and>
   load_two two_vhosts_yaml = Inr [vhost_8080, vhost_https] \<and>
   length (filter is_write (issued ready_world
     (snd (on_vhost_config_relation_changed load_two decode_table failing_ensite ''web''
             peer_event ready_world)))) = 1 \<and>
   reload_cmd \<notin> set (issued ready_world
     (snd (on_vhost_config_relation_changed load_two decode_table failing_ensite ''web''
             peer_event ready_world)))"
proof -
  have a: "ready ready_world = Some True" by (simp add: ready_world_def)
  have b: "unit peer_event = Some ''vhost-provider/0''" by (simp add: peer_event_def)
  have c: "vhosts peer_event = Some two_vhosts_yaml" by (simp add: peer_event_def)
  have e: "load_two two_vhosts_yaml = Inr [vhost_8080, vhost_https]" by (simp add: load_two_def)
  have f: "length (filter is_write (issued ready_world
     (snd (on_vhost_config_relation_changed load_two decode_table failing_ensite ''web''
             peer_event ready_world)))) = 1"
    by (simp add: vhost_eval failing_ensite_def)
  have g: "reload_cmd \<notin> set (issued ready_world
     (snd (on_vhost_config_relation_changed load_two decode_table failing_ensite ''web''
             peer_event ready_world)))"
    by (simp add: vhost_eval failing_ensite_def reload_cmd_def)
  from a b c e f g show ?thesis by blast
qed

theorem activate_vhosts_in_order_witness:
  "ready ready_world = Some True \<and>
   unit peer_event = Some ''vhost-provider/0'' \<and>
   vhosts peer_event = Some two_vhosts_yaml \<and>
   two_vhosts_yaml \<noteq> [] \<and>
   load_two two_vhosts_yaml = Inr [vhost_8080, vhost_https] \<and>
   fst (vhost_loop decode_table all_succeed ''web'' [vhost_8080, vhost_https] ready_world) = Inr () \<and>
   length (filter is_write (issued ready_world
     (snd (on_vhost_config_relation_changed load_two decode_table all_succeed ''web''
             peer_event ready_world)))) = 2 \<and>
   length (filter is_activation (issued ready_world
     (snd (on_vhost_config_relation_changed load_two decode_table all_succeed ''web''
             peer_event ready_world)))) = 2 \<and>
   count_list (issued ready_world
     (snd (on_vhost_config_relation_changed load_two decode_table all_succeed ''web''
             peer_event ready_world))) reload_cmd = 1"
proof -
  have a: "ready ready_world = Some True" by (simp add: ready_world_def)
  have b: "unit peer_event = Some ''vhost-provider/0''" by (simp add: peer_event_def)
  have c: "vhosts peer_event = Some two_vhosts_yaml" by (simp add: peer_event_def)
  have d: "two_vhosts_yaml \<noteq> []" by (simp add: two_vhosts_yaml_def)
  have e: "load_two two_vhosts_yaml = Inr [vhost_8080, vhost_https]" by (simp add: load_two_def)
  have f: "fst (vhost_loop decode_table all_succeed ''web'' [vhost_8080, vhost_https] ready_world)
             = Inr ()"
    by (simp add: vhost_eval all_succeed_def)
  from activate_vhosts_in_order[of ready_world peer_event "''vhost-provider/0''" two_vhosts_yaml
      load_two "[vhost_8080, vhost_https]" decode_table all_succeed "''web''", OF a b c d e f]
    a b c d e f
  show ?thesis by auto
qed

text \<open>
  C6. An event that arrives while the stored readiness flag is false is deferred and
  nothing else happens: the handler returns normally, the only effect is the deferral,
  so no file is written and no command is run, and the stored state is untouched.
\<close>

theorem not_ready_defers:
  assumes "ready w = Some False"
  shows "on_vhost_config_relation_changed safe_load decode run server_name ev w
           = (Inr (), w\<lparr>trace := trace w @ [DeferEvent]\<rparr>) \<and>
         issued w (snd (on_vhost_config_relation_changed safe_load decode run server_name ev w))
           = [DeferEvent] \<and>
         current_modules (snd (on_vhost_config_relation_changed safe_load decode run server_name ev w))
           = current_modules w \<and>
         ready (snd (on_vhost_config_relation_changed safe_load decode run server_name ev w))
           = ready w"
  using assms by (simp add: on_vhost_config_relation_changed_def issued_def)

theorem not_ready_defers_witness:
  "ready not_ready_world = Some False \<and>
   on_vhost_config_relation_changed load_two decode_table all_succeed ''web'' peer_event
       not_ready_world
     = (Inr (), not_ready_world\<lparr>trace := trace not_ready_world @ [DeferEvent]\<rparr>) \<and>
   issued not_ready_world
     (snd (on_vhost_config_relation_changed load_two decode_table all_succeed ''web'' peer_event
             not_ready_world)) = [DeferEvent]"
proof -
  have a: "ready not_ready_world = Some False" by (simp add: not_ready_world_def)
  from not_ready_defers[OF a, of load_two decode_table all_succeed "''web''" peer_event] a
  show ?thesis by blast
qed

lemma activate_vhost_issued:
  "issued w (snd (activate_vhost decode run server_name v w))
     = (case (v ''template'', v ''port'') of
          (Some t, Some p) \<Rightarrow>
            (case decode t of Inr body \<Rightarrow> site_actions server_name p body | Inl e \<Rightarrow> [])
        | _ \<Rightarrow> [])"
  by (simp add: activate_vhost_def subscript_def create_vhost_def enable_site_def check_call_def
                call_def site_actions_def issued_def Let_def
           split: option.splits sum.splits prod.splits)

lemma activate_vhost_ignores_protocol:
  "activate_vhost decode run server_name (v(''protocol'' := x)) w
     = activate_vhost decode run server_name v w"
proof -
  have "subscript (v(''protocol'' := x)) ''template'' = subscript v ''template''"
    by (simp add: subscript_def)
  moreover have "subscript (v(''protocol'' := x)) ''port'' = subscript v ''port''"
    by (simp add: subscript_def)
  ultimately show ?thesis by (simp add: activate_vhost_def split: sum.splits)
qed

text \<open>
  C7, as amended. For every vhost spec the handler processes, whether or not its
  activation then succeeds, the site identifier is the server name joined by an
  underscore to the spec's port: the effects of one iteration are the write and the
  \<^verbatim>\<open>a2ensite\<close> of that name when the spec has a template that decodes and a port, and
  none otherwise. The handler reads the keys \<^verbatim>\<open>template\<close> and \<^verbatim>\<open>port\<close> only, so a
  \<^verbatim>\<open>protocol\<close> key of the payload changes nothing. \<open>create_vhost\<close> names the site after
  a protocol only when its caller passes one, which the handler never does.
\<close>

theorem site_identifier_from_port:
  "issued w (snd (activate_vhost decode run server_name v w))
     = (case (v ''template'', v ''port'') of
          (Some t, Some p) \<Rightarrow>
            (case decode t of Inr body \<Rightarrow> site_actions server_name p body | Inl e \<Rightarrow> [])
        | _ \<Rightarrow> []) \<and>
   (\<forall>name. Exec [''a2ensite'', name] \<in> set (issued w (snd (activate_vhost decode run server_name v w)))
       \<longrightarrow> (\<exists>p. v ''port'' = Some p \<and> name = server_name @ ''_'' @ py_str p)) \<and>
   activate_vhost decode run server_name (v(''protocol'' := x)) w
     = activate_vhost decode run server_name v w \<and>
   (fst (activate_vhost decode run server_name v w) = Inr () \<longrightarrow>
      (\<exists>p. v ''port'' = Some p \<and>
           filter is_activation (issued w (snd (activate_vhost decode run server_name v w)))
             = [Exec [''a2ensite'', server_name @ ''_'' @ py_str p]])) \<and>
   (decode t = Inr text \<longrightarrow>
      fst (create_vhost decode server_name t port None w) = Inr (server_name @ ''_'' @ py_str port) \<and>
      fst (create_vhost decode server_name t port (Some protocol) w)
        = Inr (server_name @ ''_'' @ protocol))"
proof (intro conjI impI allI)
  show "issued w (snd (activate_vhost decode run server_name v w))
     = (case (v ''template'', v ''port'') of
          (Some t, Some p) \<Rightarrow>
            (case decode t of Inr body \<Rightarrow> site_actions server_name p body | Inl e \<Rightarrow> [])
        | _ \<Rightarrow> [])"
    by (rule activate_vhost_issued)
next
  fix name
  assume "Exec [''a2ensite'', name] \<in> set (issued w (snd (activate_vhost decode run server_name v w)))"
  then show "\<exists>p. v ''port'' = Some p \<and> name = server_name @ ''_'' @ py_str p"
    by (cases "v ''template''"; cases "v ''port''")
       (auto simp: activate_vhost_issued site_actions_def split: sum.splits)
next
  show "activate_vhost decode run server_name (v(''protocol'' := x)) w
     = activate_vhost decode run server_name v w"
    by (rule activate_vhost_ignores_protocol)
next
  assume ok: "fst (activate_vhost decode run server_name v w) = Inr ()"
  then obtain w' where a: "activate_vhost decode run server_name v w = (Inr (), w')"
    by (cases "activate_vhost decode run server_name v w") simp
  from activate_vhost_ok[OF a] obtain p body
    where "v ''port'' = Some p" "trace w' = trace w @ site_actions server_name p body"
    by (auto simp: activates_def)
  then show "\<exists>p. v ''port'' = Some p \<and>
           filter is_activation (issued w (snd (activate_vhost decode run server_name v w)))
             = [Exec [''a2ensite'', server_name @ ''_'' @ py_str p]]"
    using a by (auto simp: issued_append site_actions_def)
next
  assume "decode t = Inr text"
  then show "fst (create_vhost decode server_name t port None w)
      = Inr (server_name @ ''_'' @ py_str port)"
    by (simp add: create_vhost_def Let_def)
next
  assume "decode t = Inr text"
  then show "fst (create_vhost decode server_name t port (Some protocol) w)
      = Inr (server_name @ ''_'' @ protocol)"
    by (simp add: create_vhost_def Let_def)
qed

text \<open>
  As the claim is worded it fails: a spec that supplies the protocol \<^verbatim>\<open>https\<close> on port
  443 is activated as \<^verbatim>\<open>web_443\<close>, not as \<^verbatim>\<open>web_https\<close>.
\<close>

theorem site_identifier_from_port_counterexample:
  "vhost_https ''protocol'' = Some (YStr ''https'') \<and>
   vhost_https ''port'' = Some (YInt 443) \<and>
   filter is_activation (issued ready_world
     (snd (activate_vhost decode_table all_succeed ''web'' vhost_https ready_world)))
     = [Exec [''a2ensite'', ''web_443'']]"
  by (simp add: vhost_eval all_succeed_def)

theorem site_identifier_from_port_witness:
  "fst (activate_vhost decode_table all_succeed ''web'' vhost_8080 ready_world) = Inr () \<and>
   decode_table (YStr ''TGlzdGVuIDgwODA='') = Inr ''Listen 8080'' \<and>
   issued ready_world (snd (activate_vhost decode_table all_succeed ''web'' vhost_8080 ready_world))
     = site_actions ''web'' (YInt 8080) ''Listen 8080'' \<and>
   (\<exists>p. vhost_8080 ''port'' = Some p \<and>
        filter is_activation (issued ready_world
          (snd (activate_vhost decode_table all_succeed ''web'' vhost_8080 ready_world)))
          = [Exec [''a2ensite'', ''web'' @ ''_'' @ py_str p]]) \<and>
   fst (activate_vhost decode_table failing_ensite ''web'' vhost_https ready_world)
     = Inl (ApacheSiteEnableException ''unable to enable apache2 site web_443.'') \<and>
   issued ready_world
     (snd (activate_vhost decode_table failing_ensite ''web'' vhost_https ready_world))
     = site_actions ''web'' (YInt 443) ''Listen 443'' \<and>
   fst (create_vhost decode_table ''web'' (YStr ''TGlzdGVuIDgwODA='') (YInt 8080) None ready_world)
     = Inr (''web'' @ ''_'' @ py_str (YInt 8080)) \<and>
   fst (create_vhost decode_table ''web'' (YStr ''TGlzdGVuIDgwODA='') (YInt 8080) (Some ''http'')
          ready_world)
     = Inr (''web'' @ ''_'' @ ''http'')"
proof -
  have a: "fst (activate_vhost decode_table all_succeed ''web'' vhost_8080 ready_world) = Inr ()"
    by (simp add: vhost_eval all_succeed_def)
  have b: "decode_table (YStr ''TGlzdGVuIDgwODA='') = Inr ''Listen 8080''"
    by (simp add: decode_table_def)
  have c: "fst (activate_vhost decode_table failing_ensite ''web'' vhost_https ready_world)
     = Inl (ApacheSiteEnableException ''unable to enable apache2 site web_443.'')"
    by (simp add: vhost_eval failing_ensite_def)
  note t1 = site_identifier_from_port[of ready_world decode_table all_succeed "''web''" vhost_8080
      None "YStr ''TGlzdGVuIDgwODA=''" "''Listen 8080''" "YInt 8080" "''http''"]
  note t2 = site_identifier_from_port[of ready_world decode_table failing_ensite "''web''"
      vhost_https None "YStr ''TGlzdGVuIDgwODA=''" "''Listen 8080''" "YInt 8080" "''http''"]
  from t1 have d: "issued ready_world
      (snd (activate_vhost decode_table all_succeed ''web'' vhost_8080 ready_world))
     = site_actions ''web'' (YInt 8080) ''Listen 8080''"
    by (simp add: vhost_8080_def decode_table_def)
  from t2 have e: "issued ready_world
      (snd (activate_vhost decode_table failing_ensite ''web'' vhost_https ready_world))
     = site_actions ''web'' (YInt 443) ''Listen 443''"
    by (simp add: vhost_https_def decode_table_def)
  from t1 a b c d e show ?thesis by blast
qed

section \<open>Installing packages: which arguments are refused\<close>

text \<open>
  C8, as amended. \<open>apt_install\<close> raises \<^verbatim>\<open>ValueError\<close>, and runs no command, when the
  packages argument is no sequence. For every list of package names, the empty list
  included, it runs the install command once, with the names appended in order, and it
  completes when that command exits with zero and raises \<^verbatim>\<open>CalledProcessError\<close> otherwise.
\<close>

theorem apt_install_by_argument:
  "apt_install run (PkgOther t) options w
     = (Inl (ValueError (''Invalid type was used for the '' @ [CHR 0x22] @ ''packages'' @
                         [CHR 0x22] @ '' argument: '' @ t @ '' instead of str'')), w) \<and>
   issued w (snd (apt_install run (PkgList ps) options w))
     = [Exec ([''apt-get'', ''--assume-yes''] @
              (case options of None \<Rightarrow> [''--option=Dpkg::Options::=--force-confold'']
                             | Some os \<Rightarrow> os) @ [''install''] @ ps)] \<and>
   fst (apt_install run (PkgList ps) options w)
     = (if run (trace w)
             ([''apt-get'', ''--assume-yes''] @
              (case options of None \<Rightarrow> [''--option=Dpkg::Options::=--force-confold'']
                             | Some os \<Rightarrow> os) @ [''install''] @ ps) = 0
        then Inr ()
        else Inl (CalledProcessError
               (run (trace w)
                  ([''apt-get'', ''--assume-yes''] @
                   (case options of None \<Rightarrow> [''--option=Dpkg::Options::=--force-confold'']
                                  | Some os \<Rightarrow> os) @ [''install''] @ ps))))"
  by (simp add: apt_install_def check_call_def call_def issued_def Let_def split: option.splits)

text \<open>
  As the claim is worded it fails: the empty list is a sequence, so the install command
  runs without a package name, and the operation completes when that command exits
  with zero.
\<close>

theorem apt_install_by_argument_counterexample:
  "fst (apt_install all_succeed (PkgList []) None nothing_applied) = Inr () \<and>
   issued nothing_applied (snd (apt_install all_succeed (PkgList []) None nothing_applied))
     = [Exec [''apt-get'', ''--assume-yes'', ''--option=Dpkg::Options::=--force-confold'',
              ''install'']]"
  by (simp add: apt_install_def check_call_def call_def issued_def Let_def all_succeed_def
                nothing_applied_def)

theorem apt_install_by_argument_witness:
  "fst (apt_install all_succeed (PkgOther ''NoneType'') None nothing_applied)
     = Inl (ValueError (''Invalid type was used for the '' @ [CHR 0x22] @ ''packages'' @
                        [CHR 0x22] @ '' argument: '' @ ''NoneType'' @ '' instead of str'')) \<and>
   snd (apt_install all_succeed (PkgOther ''NoneType'') None nothing_applied) = nothing_applied \<and>
   issued nothing_applied
     (snd (apt_install all_succeed (PkgList [''apache2'']) None nothing_applied))
     = [Exec [''apt-get'', ''--assume-yes'', ''--option=Dpkg::Options::=--force-confold'',
              ''install'', ''apache2'']] \<and>
   fst (apt_install all_succeed (PkgList [''apache2'']) None nothing_applied) = Inr ()"
  using apt_install_by_argument[of all_succeed "''NoneType''" None nothing_applied "[''apache2'']"]
  by (simp add: all_succeed_def)

section \<open>Unsupported service commands\<close>

text \<open>
  C9, as amended. For every command outside \<open>SYSTEMCTL_COMMANDS\<close> the service control
  operation raises \<^verbatim>\<open>NotImplementedError\<close> and runs no external command, leaving the
  state as it was. This is a different kind from \<^verbatim>\<open>SystemctlCommandException\<close>, which is
  what a supported command raises when it exits non-zero.
\<close>

theorem unsupported_command_not_run:
  "(command \<notin> SYSTEMCTL_COMMANDS \<longrightarrow>
      systemd_unit_command run command name w
        = (Inl (NotImplementedError
                 (''usage of systemctl command '' @ [CHR 0x22] @ command @ [CHR 0x22] @
                  '' is not supported by the charm.'')), w) \<and>
      issued w (snd (systemd_unit_command run command name w)) = [] \<and>
      \<not> raised_systemctl (fst (systemd_unit_command run command name w))) \<and>
   (command \<in> SYSTEMCTL_COMMANDS \<and> run (trace w) [''systemctl'', command, name] \<noteq> 0 \<longrightarrow>
      raised_systemctl (fst (systemd_unit_command run command name w)) \<and>
      issued w (snd (systemd_unit_command run command name w)) = [Exec [''systemctl'', command, name]])"
  by (simp add: systemd_unit_command_def call_def issued_def)

text \<open>
  As the claim is worded it fails: \<^verbatim>\<open>status\<close> is not supported, and what is raised is
  not the kind a failing supported command raises.
\<close>

theorem unsupported_command_not_run_counterexample:
  "''status'' \<notin> SYSTEMCTL_COMMANDS \<and>
   fst (systemd_unit_command all_succeed ''status'' ''apache2'' nothing_applied)
     = Inl (NotImplementedError
             (''usage of systemctl command '' @ [CHR 0x22] @ ''status'' @ [CHR 0x22] @
              '' is not supported by the charm.'')) \<and>
   \<not> raised_systemctl (fst (systemd_unit_command all_succeed ''status'' ''apache2'' nothing_applied)) \<and>
   raised_systemctl (fst (systemd_unit_command failing_restart ''restart'' ''apache2'' nothing_applied))"
  by (simp add: systemd_unit_command_def SYSTEMCTL_COMMANDS_def call_def failing_restart_def)

theorem unsupported_command_not_run_witness:
  "''status'' \<notin> SYSTEMCTL_COMMANDS \<and>
   systemd_unit_command all_succeed ''status'' ''apache2'' nothing_applied
     = (Inl (NotImplementedError
              (''usage of systemctl command '' @ [CHR 0x22] @ ''status'' @ [CHR 0x22] @
               '' is not supported by the charm.'')), nothing_applied) \<and>
   issued nothing_applied
     (snd (systemd_unit_command all_succeed ''status'' ''apache2'' nothing_applied)) = [] \<and>
   ''restart'' \<in> SYSTEMCTL_COMMANDS \<and>
   failing_restart (trace nothing_applied) [''systemctl'', ''restart'', ''apache2''] \<noteq> 0 \<and>
   raised_systemctl
     (fst (systemd_unit_command failing_restart ''restart'' ''apache2'' nothing_applied))"
proof -
  have a: "''status'' \<notin> SYSTEMCTL_COMMANDS" by (simp add: SYSTEMCTL_COMMANDS_def)
  have b: "''restart'' \<in> SYSTEMCTL_COMMANDS" by (simp add: SYSTEMCTL_COMMANDS_def)
  have c: "failing_restart (trace nothing_applied) [''systemctl'', ''restart'', ''apache2''] \<noteq> 0"
    by (simp add: failing_restart_def)
  from unsupported_command_not_run[of "''status''" all_succeed "''apache2''" nothing_applied]
    unsupported_command_not_run[of "''restart''" failing_restart "''apache2''" nothing_applied]
    a b c
  show ?thesis by blast
qed

section \<open>Exit codes of the probe that are no module state\<close>

lemma str_int_2: "str_int 2 = ''2''"
  by (simp add: str_int_def str_nat.simps digit_char_def)

text \<open>
  C10. When \<^verbatim>\<open>a2query\<close> exits with a code other than 0, 1, 32 and 33, the constructor
  of the enumeration raises \<^verbatim>\<open>ValueError\<close>: \<open>get_module_state\<close> returns no state, and
  \<open>disable_module\<close> passes the \<^verbatim>\<open>ValueError\<close> on, without running \<^verbatim>\<open>a2dismod\<close>, rather
  than raising \<^verbatim>\<open>ApacheModuleDisableException\<close>. Every state the constructor does
  return is met by one of the first three tests of \<open>disable_module\<close>, so its final
  branch is never taken: no environment makes it raise the \<^verbatim>\<open>unexpected module state\<close>
  error.
\<close>

theorem unknown_exit_code_is_ValueError:
  "(run (trace w) [''a2query'', ''-m'', m] \<notin> {0, 1, 32, 33} \<longrightarrow>
      fst (get_module_state run m w)
        = Inl (ValueError (str_int (run (trace w) [''a2query'', ''-m'', m]) @
                           '' is not a valid ModuleState'')) \<and>
      fst (disable_module run m w)
        = Inl (ValueError (str_int (run (trace w) [''a2query'', ''-m'', m]) @
                           '' is not a valid ModuleState'')) \<and>
      issued w (snd (disable_module run m w)) = [Exec [''a2query'', ''-m'', m]]) \<and>
   (state = Found \<or> state \<in> {OffByAdmin, OffByMaintainer} \<or> state = NotFound) \<and>
   fst (disable_module run' m' w')
     \<noteq> Inl (ApacheModuleDisableException (''unexpected module '' @ m' @ '' state.''))"
proof (intro conjI impI)
  assume a: "run (trace w) [''a2query'', ''-m'', m] \<notin> {0, 1, 32, 33}"
  then have ms: "ModuleState (run (trace w) [''a2query'', ''-m'', m])
      = Inl (ValueError (str_int (run (trace w) [''a2query'', ''-m'', m]) @
                         '' is not a valid ModuleState''))"
    by (simp add: ModuleState_def)
  then show "fst (get_module_state run m w)
        = Inl (ValueError (str_int (run (trace w) [''a2query'', ''-m'', m]) @
                           '' is not a valid ModuleState''))"
    by (simp add: probe_effect)
  from ms show "fst (disable_module run m w)
        = Inl (ValueError (str_int (run (trace w) [''a2query'', ''-m'', m]) @
                           '' is not a valid ModuleState''))"
    by (simp add: disable_module_def probe_effect)
  from ms show "issued w (snd (disable_module run m w)) = [Exec [''a2query'', ''-m'', m]]"
    by (simp add: disable_module_def probe_effect issued_def)
next
  show "state = Found \<or> state \<in> {OffByAdmin, OffByMaintainer} \<or> state = NotFound"
    by (cases state) simp_all
next
  show "fst (disable_module run' m' w')
     \<noteq> Inl (ApacheModuleDisableException (''unexpected module '' @ m' @ '' state.''))"
    by (auto simp: disable_module_def probe_effect ModuleState_def check_call_def call_def
             split: if_splits sum.splits prod.splits)
qed

theorem unknown_exit_code_is_ValueError_witness:
  "probe_exit 2 (trace applied_ssl_headers) [''a2query'', ''-m'', ''ssl''] \<notin> {0, 1, 32, 33} \<and>
   fst (get_module_state (probe_exit 2) ''ssl'' applied_ssl_headers)
     = Inl (ValueError ''2 is not a valid ModuleState'') \<and>
   fst (disable_module (probe_exit 2) ''ssl'' applied_ssl_headers)
     = Inl (ValueError ''2 is not a valid ModuleState'') \<and>
   issued applied_ssl_headers (snd (disable_module (probe_exit 2) ''ssl'' applied_ssl_headers))
     = [Exec [''a2query'', ''-m'', ''ssl'']]"
proof -
  have a: "probe_exit 2 (trace applied_ssl_headers) [''a2query'', ''-m'', ''ssl''] = 2"
    by (simp add: probe_exit_def)
  then have b: "probe_exit 2 (trace applied_ssl_headers) [''a2query'', ''-m'', ''ssl'']
      \<notin> {0, 1, 32, 33}" by simp
  from unknown_exit_code_is_ValueError[of "probe_exit 2" applied_ssl_headers "''ssl''"] b
  have "fst (get_module_state (probe_exit 2) ''ssl'' applied_ssl_headers)
        = Inl (ValueError (str_int (probe_exit 2 (trace applied_ssl_headers)
                                      [''a2query'', ''-m'', ''ssl'']) @
                           '' is not a valid ModuleState'')) \<and>
      fst (disable_module (probe_exit 2) ''ssl'' applied_ssl_headers)
        = Inl (ValueError (str_int (probe_exit 2 (trace applied_ssl_headers)
                                      [''a2query'', ''-m'', ''ssl'']) @
                           '' is not a valid ModuleState'')) \<and>
      issued applied_ssl_headers (snd (disable_module (probe_exit 2) ''ssl'' applied_ssl_headers))
        = [Exec [''a2query'', ''-m'', ''ssl'']]"
    by blast
  with a b show ?thesis by (simp add: str_int_2)
qed

end
